theory Spec2Isabelle
  imports Main
begin

section \<open>The role store of kube2iam (store/store.go)\<close>

text \<open>
  The store keeps three Go maps behind one \<open>sync.RWMutex\<close>: pod IP to role, pod IP to
  namespace, and namespace to a slice of compiled regular expressions. Every method is
  modelled as a function from the store (and its arguments) to its return value, the
  store it leaves behind, and the list of effects it performs in program order: calls
  on the mutex, accesses to the three maps, and log lines.

  Pointers are taken to be non-nil and the maps to be the ones \<open>NewStore\<close> makes, as
  they are for every caller in the repository. A Go slice is a list; the nil slice that
  a lookup of a missing key yields is the empty list.
\<close>

subsection \<open>Collaborators outside the package\<close>

text \<open>
  \<open>regexp.Regexp\<close>: a compiled expression remembers the text it was compiled from, and
  \<open>String()\<close> returns that text. Which texts compile and which strings an expression
  matches is the business of Go's \<open>regexp\<close> package: both are parameters here.
\<close>

datatype Regexp = Regexp (expr: string)

definition Regexp_String :: "Regexp \<Rightarrow> string" where
  "Regexp_String re = expr re"

record regexp_pkg =
  syntax_ok :: "string \<Rightarrow> bool"
  accepts :: "string \<Rightarrow> string \<Rightarrow> bool"

datatype error =
    SyntaxError string
  | NotFound string  \<comment> \<open>\<open>fmt.Errorf("Unable to find role for IP %s", IP)\<close>\<close>

definition Compile :: "regexp_pkg \<Rightarrow> string \<Rightarrow> error + Regexp" where
  "Compile rx e = (if syntax_ok rx e then Inr (Regexp e) else Inl (SyntaxError e))"

definition MatchString :: "regexp_pkg \<Rightarrow> Regexp \<Rightarrow> string \<Rightarrow> bool" where
  "MatchString rx r s = accepts rx (expr r) s"

text \<open>
  \<open>iam.Client\<close>: only its method \<open>RoleARN\<close> is used, a pure function from a role name
  to the full ARN. The package \<open>iam\<close> is not part of the store; the function is a
  parameter.
\<close>

record iam_Client =
  RoleARN :: "string \<Rightarrow> string"

text \<open>\<open>v1.Pod\<close>: the store reads \<open>pod.Status.PodIP\<close> and \<open>pod.GetNamespace()\<close> only.\<close>

record Pod =
  PodIP :: string
  Namespace :: string

definition GetNamespace :: "Pod \<Rightarrow> string" where
  "GetNamespace pod = Namespace pod"

subsection \<open>Effects\<close>

datatype map_id = RolesByIP | RolesRegexpByNamespace | NamespaceByIP

datatype log_line =
    UsingFallbackRole string                \<comment> \<open>"Using fallback role for IP %s"\<close>
  | InvalidRegexp string string             \<comment> \<open>"Invalid regexp %s  described on namespace:%s found."\<close>
  | RoleMatching string Regexp string       \<comment> \<open>"Role:%s matching regexp %s on namespace:%s found."\<close>
  | RoleNotFound string string              \<comment> \<open>"Role:%s on namespace:%s not found."\<close>

datatype event =
    RLock | RUnlock | Lock | Unlock
  | MapRead map_id
  | MapWrite map_id
  | Warnf log_line
  | Debugf log_line

subsection \<open>The store\<close>

record Store =
  defaultRole :: string
  IamRoleKey :: string
  NamespaceKey :: string
  namespaceRestriction :: bool
  rolesByIP :: "string \<rightharpoonup> string"
  rolesRegexpByNamespace :: "string \<rightharpoonup> Regexp list"
  namespaceByIP :: "string \<rightharpoonup> string"
  iam :: iam_Client

definition NewStore :: "string \<Rightarrow> string \<Rightarrow> bool \<Rightarrow> string \<Rightarrow> iam_Client \<Rightarrow> Store" where
  "NewStore key defaultRole' namespaceRestriction' namespaceKey iamInstance =
     \<lparr> defaultRole = defaultRole',
       IamRoleKey = key,
       NamespaceKey = namespaceKey,
       namespaceRestriction = namespaceRestriction',
       rolesByIP = Map.empty,
       rolesRegexpByNamespace = Map.empty,
       namespaceByIP = Map.empty,
       iam = iamInstance \<rparr>"

text \<open>Indexing a Go map with a missing key yields the zero value of the value type.\<close>

definition index_string :: "(string \<rightharpoonup> string) \<Rightarrow> string \<Rightarrow> string" where
  "index_string m k = (case m k of None \<Rightarrow> [] | Some v \<Rightarrow> v)"

definition index_slice :: "(string \<rightharpoonup> Regexp list) \<Rightarrow> string \<Rightarrow> Regexp list" where
  "index_slice m k = (case m k of None \<Rightarrow> [] | Some ar \<Rightarrow> ar)"

subsection \<open>Get, AddRoleToIP, AddNamespaceToIP, DeleteIP\<close>

definition Get :: "Store \<Rightarrow> string \<Rightarrow> (error + string) \<times> event list" where
  "Get s IP =
     (case rolesByIP s IP of
        Some role \<Rightarrow> (Inr role, [RLock, MapRead RolesByIP, RUnlock])
      | None \<Rightarrow>
          if defaultRole s \<noteq> []
          then (Inr (defaultRole s),
                [RLock, MapRead RolesByIP, Warnf (UsingFallbackRole IP), RUnlock])
          else (Inl (NotFound IP), [RLock, MapRead RolesByIP, RUnlock]))"

definition AddRoleToIP :: "Store \<Rightarrow> Pod \<Rightarrow> string \<Rightarrow> Store \<times> event list" where
  "AddRoleToIP s pod role =
     (s\<lparr>rolesByIP := (rolesByIP s)(PodIP pod \<mapsto> role)\<rparr>,
      [Lock, MapWrite RolesByIP, Unlock])"

definition AddNamespaceToIP :: "Store \<Rightarrow> Pod \<Rightarrow> Store \<times> event list" where
  "AddNamespaceToIP s pod =
     (let namespace = GetNamespace pod
      in (s\<lparr>namespaceByIP := (namespaceByIP s)(PodIP pod \<mapsto> namespace)\<rparr>,
          [Lock, MapWrite NamespaceByIP, Unlock]))"

definition DeleteIP :: "Store \<Rightarrow> string \<Rightarrow> Store \<times> event list" where
  "DeleteIP s ip =
     (s\<lparr>rolesByIP := (rolesByIP s)(ip := None),
        namespaceByIP := (namespaceByIP s)(ip := None)\<rparr>,
      [Lock, MapWrite RolesByIP, MapWrite NamespaceByIP, Unlock])"

subsection \<open>AddRoleToNamespace, RemoveRoleFromNamespace, DeleteNamespace\<close>

text \<open>
  The deduplication scan of \<open>AddRoleToNamespace\<close>: the value of \<open>c\<close> when the loop is
  left, false as soon as an element's text equals the ARN.
\<close>

fun AddRoleToNamespace_scan :: "Regexp list \<Rightarrow> string \<Rightarrow> bool" where
  "AddRoleToNamespace_scan [] regexpRoleARN = True"
| "AddRoleToNamespace_scan (r # ar) regexpRoleARN =
     (if Regexp_String r = regexpRoleARN then False
      else AddRoleToNamespace_scan ar regexpRoleARN)"

definition AddRoleToNamespace ::
    "regexp_pkg \<Rightarrow> Store \<Rightarrow> string \<Rightarrow> string \<Rightarrow> Store \<times> event list" where
  "AddRoleToNamespace rx s namespace regexpForRole =
     (let regexpRoleARN = RoleARN (iam s) regexpForRole;
          ar = index_slice (rolesRegexpByNamespace s) namespace;
          c = AddRoleToNamespace_scan ar regexpRoleARN
      in if c
         then (case Compile rx regexpRoleARN of
                 Inl err \<Rightarrow>
                   (s, [MapRead RolesRegexpByNamespace,
                        Debugf (InvalidRegexp regexpRoleARN namespace)])
               | Inr re \<Rightarrow>
                   (s\<lparr>rolesRegexpByNamespace :=
                        (rolesRegexpByNamespace s)(namespace \<mapsto> ar @ [re])\<rparr>,
                    [MapRead RolesRegexpByNamespace, Lock,
                     MapWrite RolesRegexpByNamespace, Unlock]))
         else (s\<lparr>rolesRegexpByNamespace := (rolesRegexpByNamespace s)(namespace \<mapsto> ar)\<rparr>,
               [MapRead RolesRegexpByNamespace, Lock,
                MapWrite RolesRegexpByNamespace, Unlock]))"

text \<open>
  The loop of \<open>RemoveRoleFromNamespace\<close>, from index \<open>i\<close> on: at the first element whose
  text equals the ARN, \<open>ar\<close> becomes \<open>append(ar[:i], ar[i+1:]...)\<close> and the loop is left.
\<close>

function RemoveRoleFromNamespace_loop :: "Regexp list \<Rightarrow> nat \<Rightarrow> string \<Rightarrow> Regexp list" where
  "RemoveRoleFromNamespace_loop ar i regexpRoleARN =
     (if i < length ar
      then (if Regexp_String (ar ! i) = regexpRoleARN
            then take i ar @ drop (Suc i) ar
            else RemoveRoleFromNamespace_loop ar (Suc i) regexpRoleARN)
      else ar)"
  by pat_completeness auto
termination
  by (relation "measure (\<lambda>(ar, i, regexpRoleARN). length ar - i)") auto

declare RemoveRoleFromNamespace_loop.simps [simp del]

definition RemoveRoleFromNamespace :: "Store \<Rightarrow> string \<Rightarrow> string \<Rightarrow> Store \<times> event list" where
  "RemoveRoleFromNamespace s namespace regexpForRole =
     (let regexpRoleARN = RoleARN (iam s) regexpForRole;
          ar = index_slice (rolesRegexpByNamespace s) namespace;
          ar' = RemoveRoleFromNamespace_loop ar 0 regexpRoleARN
      in (s\<lparr>rolesRegexpByNamespace := (rolesRegexpByNamespace s)(namespace \<mapsto> ar')\<rparr>,
          [MapRead RolesRegexpByNamespace, Lock, MapWrite RolesRegexpByNamespace, Unlock]))"

definition DeleteNamespace :: "Store \<Rightarrow> string \<Rightarrow> Store \<times> event list" where
  "DeleteNamespace s namespace =
     (s\<lparr>rolesRegexpByNamespace := (rolesRegexpByNamespace s)(namespace := None)\<rparr>,
      [Lock, MapWrite RolesRegexpByNamespace, Unlock])"

subsection \<open>checkRoleForNamespace, CheckNamespaceRestriction\<close>

text \<open>The scan of \<open>checkRoleForNamespace\<close>: the expression at which the loop returns true.\<close>

fun checkRoleForNamespace_scan :: "regexp_pkg \<Rightarrow> Regexp list \<Rightarrow> string \<Rightarrow> Regexp option" where
  "checkRoleForNamespace_scan rx [] role = None"
| "checkRoleForNamespace_scan rx (r # ar) role =
     (if MatchString rx r role then Some r else checkRoleForNamespace_scan rx ar role)"

definition checkRoleForNamespace ::
    "regexp_pkg \<Rightarrow> Store \<Rightarrow> string \<Rightarrow> string \<Rightarrow> bool \<times> event list" where
  "checkRoleForNamespace rx s role namespace =
     (let ar = index_slice (rolesRegexpByNamespace s) namespace
      in case checkRoleForNamespace_scan rx ar role of
           Some r \<Rightarrow>
             (True, [MapRead RolesRegexpByNamespace, Debugf (RoleMatching role r namespace)])
         | None \<Rightarrow>
             (False, [MapRead RolesRegexpByNamespace, Warnf (RoleNotFound role namespace)]))"

definition CheckNamespaceRestriction ::
    "regexp_pkg \<Rightarrow> Store \<Rightarrow> string \<Rightarrow> string \<Rightarrow> (bool \<times> string) \<times> event list" where
  "CheckNamespaceRestriction rx s role ip =
     (let ns = index_string (namespaceByIP s) ip
      in if \<not> namespaceRestriction s then ((True, ns), [MapRead NamespaceByIP])
         else if role = RoleARN (iam s) (defaultRole s)
              then ((True, ns), [MapRead NamespaceByIP])
              else (case checkRoleForNamespace rx s role ns of
                      (found, evs) \<Rightarrow> ((found, ns), MapRead NamespaceByIP # evs)))"

subsection \<open>The dumps\<close>

definition DumpRolesByIP :: "Store \<Rightarrow> (string \<rightharpoonup> string) \<times> event list" where
  "DumpRolesByIP s = (rolesByIP s, [MapRead RolesByIP])"

text \<open>\<open>make([]string, n)\<close> is a slice of \<open>n\<close> empty strings.\<close>

definition make_strings :: "nat \<Rightarrow> string list" where
  "make_strings n = replicate n []"

text \<open>The inner loop of \<open>DumpRolesByNamespace\<close>: one \<open>append\<close> for each expression.\<close>

fun DumpRolesByNamespace_loop :: "string list \<Rightarrow> Regexp list \<Rightarrow> string list" where
  "DumpRolesByNamespace_loop listOfRoles [] = listOfRoles"
| "DumpRolesByNamespace_loop listOfRoles (roleRegexp # listOfRegexp) =
     DumpRolesByNamespace_loop (listOfRoles @ [Regexp_String roleRegexp]) listOfRegexp"

definition DumpRolesByNamespace :: "Store \<Rightarrow> (string \<rightharpoonup> string list) \<times> event list" where
  "DumpRolesByNamespace s =
     ((\<lambda>ns. case rolesRegexpByNamespace s ns of
              None \<Rightarrow> None
            | Some listOfRegexp \<Rightarrow>
                Some (DumpRolesByNamespace_loop
                        (make_strings (length (index_slice (rolesRegexpByNamespace s) ns)))
                        listOfRegexp)),
      [MapRead RolesRegexpByNamespace])"

definition DumpNamespaceByIP :: "Store \<Rightarrow> (string \<rightharpoonup> string) \<times> event list" where
  "DumpNamespaceByIP s = (namespaceByIP s, [MapRead NamespaceByIP])"

subsection \<open>Sequences of calls\<close>

text \<open>
  The mutating methods as one datatype of calls, and the store that a sequence of calls
  leaves behind: the stores the callers of the package can build from \<open>NewStore\<close>.
\<close>

datatype call =
    Call_AddRoleToIP Pod string
  | Call_AddNamespaceToIP Pod
  | Call_DeleteIP string
  | Call_AddRoleToNamespace string string
  | Call_RemoveRoleFromNamespace string string
  | Call_DeleteNamespace string

fun do_call :: "regexp_pkg \<Rightarrow> Store \<Rightarrow> call \<Rightarrow> Store" where
  "do_call rx s (Call_AddRoleToIP pod role) = fst (AddRoleToIP s pod role)"
| "do_call rx s (Call_AddNamespaceToIP pod) = fst (AddNamespaceToIP s pod)"
| "do_call rx s (Call_DeleteIP ip) = fst (DeleteIP s ip)"
| "do_call rx s (Call_AddRoleToNamespace namespace regexpForRole) =
     fst (AddRoleToNamespace rx s namespace regexpForRole)"
| "do_call rx s (Call_RemoveRoleFromNamespace namespace regexpForRole) =
     fst (RemoveRoleFromNamespace s namespace regexpForRole)"
| "do_call rx s (Call_DeleteNamespace namespace) = fst (DeleteNamespace s namespace)"

fun do_calls :: "regexp_pkg \<Rightarrow> Store \<Rightarrow> call list \<Rightarrow> Store" where
  "do_calls rx s [] = s"
| "do_calls rx s (c # cs) = do_calls rx (do_call rx s c) cs"

subsection \<open>Lock discipline of one call\<close>

text \<open>
  What the calling goroutine holds of the store's mutex while it runs through the
  effects of one call, and whether every access to a map happens under it: a read
  under the read or the write lock, a write under the write lock.
\<close>

datatype held = Nothing | ReadLock | WriteLock

fun under_lock :: "held \<Rightarrow> event list \<Rightarrow> bool" where
  "under_lock h [] = True"
| "under_lock h (RLock # es) = under_lock ReadLock es"
| "under_lock h (RUnlock # es) = under_lock Nothing es"
| "under_lock h (Lock # es) = under_lock WriteLock es"
| "under_lock h (Unlock # es) = under_lock Nothing es"
| "under_lock h (MapRead m # es) = (h \<noteq> Nothing \<and> under_lock h es)"
| "under_lock h (MapWrite m # es) = (h = WriteLock \<and> under_lock h es)"
| "under_lock h (Warnf l # es) = under_lock h es"
| "under_lock h (Debugf l # es) = under_lock h es"

subsection \<open>A concrete configuration\<close>

text \<open>
  Stand-ins for the two collaborators, for running the store on concrete inputs. The
  normalizer puts the prefix \<open>role:\<close> in front of a name that lacks it. The pattern
  engine knows literal text with an optional trailing \<open>.*\<close>, found anywhere in the
  subject as Go's unanchored match finds it, and rejects unbalanced parentheses as
  \<open>regexp.Compile\<close> does.
\<close>

definition example_RoleARN :: "string \<Rightarrow> string" where
  "example_RoleARN role = (if take 5 role = ''role:'' then role else ''role:'' @ role)"

definition example_iam :: iam_Client where
  "example_iam = \<lparr> RoleARN = example_RoleARN \<rparr>"

definition example_syntax_ok :: "string \<Rightarrow> bool" where
  "example_syntax_ok e = (count_list e (CHR ''('') = count_list e (CHR '')''))"

fun contains :: "string \<Rightarrow> string \<Rightarrow> bool" where
  "contains lit [] = (lit = [])"
| "contains lit (c # cs) = (take (length lit) (c # cs) = lit \<or> contains lit cs)"

definition example_accepts :: "string \<Rightarrow> string \<Rightarrow> bool" where
  "example_accepts e s =
     (if 2 \<le> length e \<and> drop (length e - 2) e = ''.*''
      then contains (take (length e - 2) e) s
      else contains e s)"

definition example_rx :: regexp_pkg where
  "example_rx = \<lparr> syntax_ok = example_syntax_ok, accepts = example_accepts \<rparr>"

definition pod_A1 :: Pod where
  "pod_A1 = \<lparr> PodIP = ''A1'', Namespace = ''payments'' \<rparr>"

text \<open>
  Enforcement enabled, default role \<open>default\<close>, namespace \<open>payments\<close> granted
  \<open>payments-.*\<close>, address \<open>A1\<close> recorded with role \<open>role:payments-writer\<close> in namespace
  \<open>payments\<close>.
\<close>

definition payments_store :: Store where
  "payments_store =
     do_calls example_rx
       (NewStore ''iam.amazonaws.com/role'' ''default'' True
          ''iam.amazonaws.com/allowed-roles'' example_iam)
       [Call_AddRoleToNamespace ''payments'' ''payments-.*'',
        Call_AddRoleToIP pod_A1 ''role:payments-writer'',
        Call_AddNamespaceToIP pod_A1]"

text \<open>The same address in a store without enforcement.\<close>

definition unrestricted_store :: Store where
  "unrestricted_store =
     do_calls example_rx
       (NewStore ''iam.amazonaws.com/role'' ''default'' False
          ''iam.amazonaws.com/allowed-roles'' example_iam)
       [Call_AddRoleToIP pod_A1 ''role:payments-writer'',
        Call_AddNamespaceToIP pod_A1]"

text \<open>A second pod, and the store of \<open>payments_store\<close> with that pod recorded as well.\<close>

definition pod_A2 :: Pod where
  "pod_A2 = \<lparr> PodIP = ''A2'', Namespace = ''billing'' \<rparr>"

definition two_pods_store :: Store where
  "two_pods_store =
     do_calls example_rx payments_store
       [Call_AddRoleToIP pod_A2 ''role:billing-reader'',
        Call_AddNamespaceToIP pod_A2]"

text \<open>
  Enforcement enabled and a pattern granted to the namespace whose name is the empty
  string; no address recorded.
\<close>

definition unnamed_namespace_store :: Store where
  "unnamed_namespace_store =
     do_calls example_rx
       (NewStore ''iam.amazonaws.com/role'' ''default'' True
          ''iam.amazonaws.com/allowed-roles'' example_iam)
       [Call_AddRoleToNamespace [] ''payments-.*'']"

text \<open>A store with nothing recorded and no default role.\<close>

definition empty_store :: Store where
  "empty_store =
     NewStore ''iam.amazonaws.com/role'' [] True ''iam.amazonaws.com/allowed-roles'' example_iam"

subsection \<open>The invariant of the patterns\<close>

text \<open>
  What holds of the patterns in every store built from \<open>NewStore\<close> by calls: within one
  namespace no two expressions have the same text, and every stored text compiles.
\<close>

definition patterns_ok :: "regexp_pkg \<Rightarrow> Store \<Rightarrow> bool" where
  "patterns_ok rx s \<longleftrightarrow>
     (\<forall>ns ar. rolesRegexpByNamespace s ns = Some ar \<longrightarrow>
        distinct (map Regexp_String ar) \<and> (\<forall>r \<in> set ar. syntax_ok rx (expr r)))"

section \<open>Properties\<close>

subsection \<open>Facts about the loops\<close>

lemma AddRoleToNamespace_scan_iff:
  "AddRoleToNamespace_scan ar x \<longleftrightarrow> x \<notin> set (map Regexp_String ar)"
  by (induction ar) auto

lemma checkRoleForNamespace_scan_None:
  "checkRoleForNamespace_scan rx ar role = None \<longleftrightarrow> (\<forall>r \<in> set ar. \<not> MatchString rx r role)"
  by (induction ar) auto

lemma checkRoleForNamespace_scan_first:
  "\<forall>q \<in> set pre. \<not> MatchString rx q role \<Longrightarrow> MatchString rx r role \<Longrightarrow>
   checkRoleForNamespace_scan rx (pre @ r # post) role = Some r"
  by (induction pre) auto

lemma RemoveRoleFromNamespace_loop_remove1_from:
  "i \<le> length ar \<Longrightarrow> x \<notin> set (map Regexp_String (take i ar)) \<Longrightarrow>
   map Regexp_String (RemoveRoleFromNamespace_loop ar i x) = remove1 x (map Regexp_String ar)"
proof (induction ar i x rule: RemoveRoleFromNamespace_loop.induct)
  case (1 ar i x)
  show ?case
  proof (cases "i < length ar")
    case False
    with "1.prems" have "take i ar = ar" by simp
    with "1.prems" have "x \<notin> set (map Regexp_String ar)" by simp
    then have "remove1 x (map Regexp_String ar) = map Regexp_String ar"
      by (rule remove1_idem)
    with False show ?thesis
      by (simp add: RemoveRoleFromNamespace_loop.simps [of ar i x])
  next
    case True
    then have split: "ar = take i ar @ ar ! i # drop (Suc i) ar"
      by (rule id_take_nth_drop)
    show ?thesis
    proof (cases "Regexp_String (ar ! i) = x")
      case hit: True
      have "remove1 x (map Regexp_String ar) =
            remove1 x (map Regexp_String (take i ar) @ x # map Regexp_String (drop (Suc i) ar))"
        using split hit by (metis list.simps(9) map_append)
      also have "\<dots> = map Regexp_String (take i ar) @ map Regexp_String (drop (Suc i) ar)"
        using "1.prems"(2) by (simp add: remove1_append)
      finally show ?thesis
        using True hit by (simp add: RemoveRoleFromNamespace_loop.simps [of ar i x])
    next
      case miss: False
      have "take (Suc i) ar = take i ar @ [ar ! i]"
        using True by (rule take_Suc_conv_app_nth)
      with miss "1.prems" have "x \<notin> set (map Regexp_String (take (Suc i) ar))"
        by auto
      with "1.IH" [OF True miss] True
      have "map Regexp_String (RemoveRoleFromNamespace_loop ar (Suc i) x) =
            remove1 x (map Regexp_String ar)"
        by simp
      with True miss show ?thesis
        by (simp add: RemoveRoleFromNamespace_loop.simps [of ar i x])
    qed
  qed
qed

lemma RemoveRoleFromNamespace_loop_remove1:
  "map Regexp_String (RemoveRoleFromNamespace_loop ar 0 x) = remove1 x (map Regexp_String ar)"
  by (rule RemoveRoleFromNamespace_loop_remove1_from) simp_all

lemma RemoveRoleFromNamespace_loop_subset:
  "set (RemoveRoleFromNamespace_loop ar i x) \<subseteq> set ar"
proof (induction ar i x rule: RemoveRoleFromNamespace_loop.induct)
  case (1 ar i x)
  have "set (take i ar @ drop (Suc i) ar) \<subseteq> set ar"
    using set_take_subset [of i ar] set_drop_subset [of "Suc i" ar] by auto
  with 1 show ?case
    by (simp add: RemoveRoleFromNamespace_loop.simps [of ar i x])
qed

lemma RemoveRoleFromNamespace_loop_no_match:
  "x \<notin> set (map Regexp_String ar) \<Longrightarrow> RemoveRoleFromNamespace_loop ar i x = ar"
proof (induction ar i x rule: RemoveRoleFromNamespace_loop.induct)
  case (1 ar i x)
  show ?case
  proof (cases "i < length ar")
    case False
    then show ?thesis by (simp add: RemoveRoleFromNamespace_loop.simps [of ar i x])
  next
    case True
    with "1.prems" have miss: "Regexp_String (ar ! i) \<noteq> x" by auto
    with "1.IH" [OF True miss] "1.prems" True show ?thesis
      by (simp add: RemoveRoleFromNamespace_loop.simps [of ar i x])
  qed
qed

lemma DumpRolesByNamespace_loop_eq:
  "DumpRolesByNamespace_loop acc rs = acc @ map Regexp_String rs"
  by (induction rs arbitrary: acc) auto

subsection \<open>Get\<close>

text \<open>
  Claim C2. For an address that is absent from \<open>rolesByIP\<close>, \<open>Get\<close> returns the
  configured default role, and logs the warning that the fallback role is used, when a
  default role is configured (\<open>defaultRole\<close> is not the empty string); it returns the
  not-found error when none is configured, and for an absent address it returns an error
  exactly in that case. For an address with a recorded role it never returns an error.
\<close>

theorem Get_absent_address:
  "(rolesByIP s IP = None \<and> defaultRole s \<noteq> [] \<longrightarrow>
      Get s IP = (Inr (defaultRole s),
                  [RLock, MapRead RolesByIP, Warnf (UsingFallbackRole IP), RUnlock]))
   \<and> (rolesByIP s IP = None \<and> defaultRole s = [] \<longrightarrow> fst (Get s IP) = Inl (NotFound IP))
   \<and> (rolesByIP s IP = None \<longrightarrow> (isl (fst (Get s IP)) \<longleftrightarrow> defaultRole s = []))
   \<and> (rolesByIP s IP \<noteq> None \<longrightarrow> \<not> isl (fst (Get s IP)))"
  by (auto simp: Get_def split: option.splits)

theorem Get_absent_address_witness:
  "rolesByIP payments_store ''A2'' = None \<and> defaultRole payments_store \<noteq> []
   \<and> Get payments_store ''A2'' =
       (Inr (defaultRole payments_store),
        [RLock, MapRead RolesByIP, Warnf (UsingFallbackRole ''A2''), RUnlock])
   \<and> rolesByIP empty_store ''A2'' = None \<and> defaultRole empty_store = []
   \<and> fst (Get empty_store ''A2'') = Inl (NotFound ''A2'')
   \<and> isl (fst (Get empty_store ''A2''))
   \<and> rolesByIP payments_store ''A1'' \<noteq> None
   \<and> \<not> isl (fst (Get payments_store ''A1''))"
proof -
  have a: "rolesByIP payments_store ''A2'' = None" by code_simp
  have b: "defaultRole payments_store \<noteq> []" by code_simp
  have c: "rolesByIP empty_store ''A2'' = None" by code_simp
  have d: "defaultRole empty_store = []" by code_simp
  have e: "rolesByIP payments_store ''A1'' \<noteq> None" by code_simp
  show ?thesis
    using a b c d e
      Get_absent_address [of payments_store "''A2''"]
      Get_absent_address [of empty_store "''A2''"]
      Get_absent_address [of payments_store "''A1''"]
    by blast
qed

text \<open>
  Claim C3. Right after \<open>AddRoleToIP\<close> has recorded a role for a pod, \<open>Get\<close> on the pod's
  address returns exactly that role and no error, whatever the store held for that
  address before: the last write wins.
\<close>

theorem Get_after_AddRoleToIP:
  "Get (fst (AddRoleToIP s pod role)) (PodIP pod) =
     (Inr role, [RLock, MapRead RolesByIP, RUnlock])"
  by (simp add: Get_def AddRoleToIP_def)

theorem Get_after_AddRoleToIP_witness:
  "Get (fst (AddRoleToIP payments_store pod_A1 ''role:payments-reader'')) (PodIP pod_A1) =
     (Inr ''role:payments-reader'', [RLock, MapRead RolesByIP, RUnlock])"
  using Get_after_AddRoleToIP [of payments_store pod_A1 "''role:payments-reader''"] .

subsection \<open>DeleteIP\<close>

text \<open>
  Claim C4. \<open>DeleteIP\<close> leaves the address in neither \<open>rolesByIP\<close> nor
  \<open>namespaceByIP\<close>. A map that did not hold the address is left as it was, and when
  neither held it the store is unchanged. Afterwards \<open>Get\<close> on the address returns the
  not-found error when no default role is configured.
\<close>

theorem DeleteIP_forgets:
  "rolesByIP (fst (DeleteIP s ip)) ip = None
   \<and> namespaceByIP (fst (DeleteIP s ip)) ip = None
   \<and> (rolesByIP s ip = None \<longrightarrow> rolesByIP (fst (DeleteIP s ip)) = rolesByIP s)
   \<and> (namespaceByIP s ip = None \<longrightarrow> namespaceByIP (fst (DeleteIP s ip)) = namespaceByIP s)
   \<and> (rolesByIP s ip = None \<and> namespaceByIP s ip = None \<longrightarrow> fst (DeleteIP s ip) = s)
   \<and> (defaultRole s = [] \<longrightarrow> fst (Get (fst (DeleteIP s ip)) ip) = Inl (NotFound ip))"
  by (simp add: DeleteIP_def Get_def fun_upd_idem_iff)

theorem DeleteIP_forgets_witness:
  "rolesByIP empty_store ''A1'' = None \<and> namespaceByIP empty_store ''A1'' = None
   \<and> defaultRole empty_store = []
   \<and> fst (DeleteIP empty_store ''A1'') = empty_store
   \<and> rolesByIP (fst (DeleteIP empty_store ''A1'')) = rolesByIP empty_store
   \<and> namespaceByIP (fst (DeleteIP empty_store ''A1'')) = namespaceByIP empty_store
   \<and> fst (Get (fst (DeleteIP empty_store ''A1'')) ''A1'') = Inl (NotFound ''A1'')"
proof -
  have a: "rolesByIP empty_store ''A1'' = None" by code_simp
  have b: "namespaceByIP empty_store ''A1'' = None" by code_simp
  have c: "defaultRole empty_store = []" by code_simp
  show ?thesis
    using a b c DeleteIP_forgets [of empty_store "''A1''"] by blast
qed

subsection \<open>Frame of the calls on one address\<close>

text \<open>
  Claim C10. \<open>AddRoleToIP\<close> changes \<open>rolesByIP\<close> at the pod's address only,
  \<open>AddNamespaceToIP\<close> changes \<open>namespaceByIP\<close> at the pod's address only, and \<open>DeleteIP\<close>
  changes the two maps at the given address only: the entries of every other address
  and the patterns of every namespace are as before. Nothing else of the store changes
  either: the store after the call is the store before it with the one map (for
  \<open>DeleteIP\<close> the two maps) updated at that address, so the default role, the
  enforcement flag, the two annotation keys and the client are the same.
\<close>

theorem address_calls_frame:
  "(\<forall>ip'. ip' \<noteq> PodIP pod \<longrightarrow>
        rolesByIP (fst (AddRoleToIP s pod role)) ip' = rolesByIP s ip')
   \<and> namespaceByIP (fst (AddRoleToIP s pod role)) = namespaceByIP s
   \<and> rolesRegexpByNamespace (fst (AddRoleToIP s pod role)) = rolesRegexpByNamespace s
   \<and> (\<forall>ip'. ip' \<noteq> PodIP pod \<longrightarrow>
        namespaceByIP (fst (AddNamespaceToIP s pod)) ip' = namespaceByIP s ip')
   \<and> rolesByIP (fst (AddNamespaceToIP s pod)) = rolesByIP s
   \<and> rolesRegexpByNamespace (fst (AddNamespaceToIP s pod)) = rolesRegexpByNamespace s
   \<and> (\<forall>ip'. ip' \<noteq> ip \<longrightarrow>
        rolesByIP (fst (DeleteIP s ip)) ip' = rolesByIP s ip'
        \<and> namespaceByIP (fst (DeleteIP s ip)) ip' = namespaceByIP s ip')
   \<and> rolesRegexpByNamespace (fst (DeleteIP s ip)) = rolesRegexpByNamespace s
   \<and> fst (AddRoleToIP s pod role) =
       s\<lparr>rolesByIP :=
           (rolesByIP s)(PodIP pod := rolesByIP (fst (AddRoleToIP s pod role)) (PodIP pod))\<rparr>
   \<and> fst (AddNamespaceToIP s pod) =
       s\<lparr>namespaceByIP :=
           (namespaceByIP s)(PodIP pod := namespaceByIP (fst (AddNamespaceToIP s pod)) (PodIP pod))\<rparr>
   \<and> fst (DeleteIP s ip) =
       s\<lparr>rolesByIP := (rolesByIP s)(ip := rolesByIP (fst (DeleteIP s ip)) ip),
          namespaceByIP := (namespaceByIP s)(ip := namespaceByIP (fst (DeleteIP s ip)) ip)\<rparr>
   \<and> defaultRole (fst (AddRoleToIP s pod role)) = defaultRole s
   \<and> namespaceRestriction (fst (AddRoleToIP s pod role)) = namespaceRestriction s
   \<and> IamRoleKey (fst (AddRoleToIP s pod role)) = IamRoleKey s
   \<and> NamespaceKey (fst (AddRoleToIP s pod role)) = NamespaceKey s
   \<and> iam (fst (AddRoleToIP s pod role)) = iam s
   \<and> defaultRole (fst (AddNamespaceToIP s pod)) = defaultRole s
   \<and> namespaceRestriction (fst (AddNamespaceToIP s pod)) = namespaceRestriction s
   \<and> IamRoleKey (fst (AddNamespaceToIP s pod)) = IamRoleKey s
   \<and> NamespaceKey (fst (AddNamespaceToIP s pod)) = NamespaceKey s
   \<and> iam (fst (AddNamespaceToIP s pod)) = iam s
   \<and> defaultRole (fst (DeleteIP s ip)) = defaultRole s
   \<and> namespaceRestriction (fst (DeleteIP s ip)) = namespaceRestriction s
   \<and> IamRoleKey (fst (DeleteIP s ip)) = IamRoleKey s
   \<and> NamespaceKey (fst (DeleteIP s ip)) = NamespaceKey s
   \<and> iam (fst (DeleteIP s ip)) = iam s"
  by (simp add: AddRoleToIP_def AddNamespaceToIP_def DeleteIP_def)

theorem address_calls_frame_witness:
  "''A2'' \<noteq> PodIP pod_A1
   \<and> rolesByIP two_pods_store ''A2'' = Some ''role:billing-reader''
   \<and> namespaceByIP two_pods_store ''A2'' = Some ''billing''
   \<and> rolesByIP (fst (AddRoleToIP two_pods_store pod_A1 ''role:other'')) ''A2'' =
       rolesByIP two_pods_store ''A2''
   \<and> namespaceByIP (fst (AddNamespaceToIP two_pods_store pod_A1)) ''A2'' =
       namespaceByIP two_pods_store ''A2''
   \<and> ''A2'' \<noteq> ''A1''
   \<and> rolesByIP (fst (DeleteIP two_pods_store ''A1'')) ''A2'' = rolesByIP two_pods_store ''A2''
   \<and> namespaceByIP (fst (DeleteIP two_pods_store ''A1'')) ''A2'' =
       namespaceByIP two_pods_store ''A2''
   \<and> rolesRegexpByNamespace (fst (DeleteIP two_pods_store ''A1'')) =
       rolesRegexpByNamespace two_pods_store
   \<and> namespaceRestriction (fst (AddRoleToIP two_pods_store pod_A1 ''role:other'')) =
       namespaceRestriction two_pods_store
   \<and> defaultRole (fst (DeleteIP two_pods_store ''A1'')) = defaultRole two_pods_store"
proof -
  have a: "''A2'' \<noteq> PodIP pod_A1" by code_simp
  have b: "''A2'' \<noteq> ''A1''" by simp
  have c: "rolesByIP two_pods_store ''A2'' = Some ''role:billing-reader''" by code_simp
  have d: "namespaceByIP two_pods_store ''A2'' = Some ''billing''" by code_simp
  note t = address_calls_frame [of pod_A1 two_pods_store "''role:other''" "''A1''"]
  have 1: "rolesByIP (fst (AddRoleToIP two_pods_store pod_A1 ''role:other'')) ''A2'' =
       rolesByIP two_pods_store ''A2''"
    using t [THEN conjunct1] a by simp
  have 2: "namespaceByIP (fst (AddNamespaceToIP two_pods_store pod_A1)) ''A2'' =
       namespaceByIP two_pods_store ''A2''"
    using t [THEN conjunct2, THEN conjunct2, THEN conjunct2, THEN conjunct1] a by simp
  have 3: "rolesByIP (fst (DeleteIP two_pods_store ''A1'')) ''A2'' = rolesByIP two_pods_store ''A2''
       \<and> namespaceByIP (fst (DeleteIP two_pods_store ''A1'')) ''A2'' =
          namespaceByIP two_pods_store ''A2''"
    using t [THEN conjunct2, THEN conjunct2, THEN conjunct2, THEN conjunct2, THEN conjunct2,
             THEN conjunct2, THEN conjunct1] b by simp
  have 4: "rolesRegexpByNamespace (fst (DeleteIP two_pods_store ''A1'')) =
       rolesRegexpByNamespace two_pods_store"
    using t by simp
  have 5: "namespaceRestriction (fst (AddRoleToIP two_pods_store pod_A1 ''role:other'')) =
       namespaceRestriction two_pods_store"
    using t by simp
  have 6: "defaultRole (fst (DeleteIP two_pods_store ''A1'')) = defaultRole two_pods_store"
    using t by simp
  show ?thesis
    by (intro conjI a b c d 1 2 3 [THEN conjunct1] 3 [THEN conjunct2] 4 5 6)
qed

subsection \<open>AddRoleToNamespace\<close>

text \<open>
  Claim C6. When the ARN of the pattern does not compile, \<open>AddRoleToNamespace\<close> leaves
  the store as it was: every namespace has the entry it had, or still none. The method
  returns nothing to the caller; when the ARN was not yet among the namespace's
  patterns, all it does is read the map and log the invalid expression at debug level.
\<close>

theorem AddRoleToNamespace_invalid_regexp:
  assumes "Compile rx (RoleARN (iam s) regexpForRole) = Inl err"
  shows "fst (AddRoleToNamespace rx s namespace regexpForRole) = s
         \<and> (\<forall>ns. rolesRegexpByNamespace (fst (AddRoleToNamespace rx s namespace regexpForRole)) ns
                  = rolesRegexpByNamespace s ns)
         \<and> (RoleARN (iam s) regexpForRole
              \<notin> set (map Regexp_String (index_slice (rolesRegexpByNamespace s) namespace)) \<longrightarrow>
            snd (AddRoleToNamespace rx s namespace regexpForRole) =
              [MapRead RolesRegexpByNamespace,
               Debugf (InvalidRegexp (RoleARN (iam s) regexpForRole) namespace)])"
proof -
  let ?arn = "RoleARN (iam s) regexpForRole"
  let ?ar = "index_slice (rolesRegexpByNamespace s) namespace"
  have same: "fst (AddRoleToNamespace rx s namespace regexpForRole) = s"
  proof (cases "AddRoleToNamespace_scan ?ar ?arn")
    case True
    with assms show ?thesis by (simp add: AddRoleToNamespace_def Let_def)
  next
    case False
    then have "?ar \<noteq> []" by auto
    then have "rolesRegexpByNamespace s namespace = Some ?ar"
      by (auto simp: index_slice_def split: option.splits)
    then have "(rolesRegexpByNamespace s)(namespace \<mapsto> ?ar) = rolesRegexpByNamespace s"
      by (rule map_upd_triv)
    with False show ?thesis by (simp add: AddRoleToNamespace_def Let_def)
  qed
  moreover have "AddRoleToNamespace_scan ?ar ?arn \<Longrightarrow>
      snd (AddRoleToNamespace rx s namespace regexpForRole) =
        [MapRead RolesRegexpByNamespace, Debugf (InvalidRegexp ?arn namespace)]"
    using assms by (simp add: AddRoleToNamespace_def Let_def)
  ultimately show ?thesis
    by (simp add: AddRoleToNamespace_scan_iff)
qed

theorem AddRoleToNamespace_invalid_regexp_witness:
  "Compile example_rx (RoleARN (iam payments_store) ''('') = Inl (SyntaxError ''role:('')
   \<and> fst (AddRoleToNamespace example_rx payments_store ''payments'' ''('') = payments_store
   \<and> snd (AddRoleToNamespace example_rx payments_store ''payments'' ''('') =
       [MapRead RolesRegexpByNamespace,
        Debugf (InvalidRegexp (RoleARN (iam payments_store) ''('') ''payments'')]"
proof -
  have a: "Compile example_rx (RoleARN (iam payments_store) ''('') = Inl (SyntaxError ''role:('')"
    by code_simp
  have b: "RoleARN (iam payments_store) ''(''
             \<notin> set (map Regexp_String (index_slice (rolesRegexpByNamespace payments_store) ''payments''))"
    by code_simp
  show ?thesis
    using a b AddRoleToNamespace_invalid_regexp [OF a, of "''payments''"] by blast
qed

subsection \<open>CheckNamespaceRestriction\<close>

text \<open>
  Claim C1, as stated, at an address with no recorded namespace. With enforcement
  enabled and a pattern granted to the namespace named by the empty string, the check
  of a role other than the default for the unknown address \<open>A9\<close> scans that
  namespace's slice and returns true with the empty namespace name, not false.
\<close>

theorem CheckNamespaceRestriction_unknown_address_counterexample:
  "namespaceByIP unnamed_namespace_store ''A9'' = None
   \<and> namespaceRestriction unnamed_namespace_store
   \<and> ''role:payments-writer''
        \<noteq> RoleARN (iam unnamed_namespace_store) (defaultRole unnamed_namespace_store)
   \<and> fst (CheckNamespaceRestriction example_rx unnamed_namespace_store
             ''role:payments-writer'' ''A9'') = (True, [])"
  by code_simp

text \<open>
  Claim C1, amended. \<open>CheckNamespaceRestriction\<close> returns, next to its verdict, the
  namespace recorded for the address, or the empty string when the address has none.
  The verdict is true when enforcement is disabled, and true when the role equals the
  ARN of the default role. Otherwise it is true exactly when some expression of the
  slice stored under the returned namespace name matches the role; the scan runs in
  the order of the slice and stops at the first expression that matches, which is the
  one the debug line names. The verdict is false when none matches, in particular when
  that namespace has an empty slice or no entry at all. For an address with no recorded
  namespace the slice scanned is the one stored under the empty string.
\<close>

theorem CheckNamespaceRestriction_decision:
  "snd (fst (CheckNamespaceRestriction rx s role ip)) =
     (case namespaceByIP s ip of Some namespace \<Rightarrow> namespace | None \<Rightarrow> [])
   \<and> (\<not> namespaceRestriction s \<longrightarrow> fst (fst (CheckNamespaceRestriction rx s role ip)))
   \<and> (namespaceRestriction s \<and> role = RoleARN (iam s) (defaultRole s) \<longrightarrow>
        fst (fst (CheckNamespaceRestriction rx s role ip)))
   \<and> (namespaceRestriction s \<and> role \<noteq> RoleARN (iam s) (defaultRole s) \<longrightarrow>
        (fst (fst (CheckNamespaceRestriction rx s role ip)) \<longleftrightarrow>
           (\<exists>r \<in> set (index_slice (rolesRegexpByNamespace s) (index_string (namespaceByIP s) ip)).
              MatchString rx r role)))
   \<and> (namespaceRestriction s \<and> role \<noteq> RoleARN (iam s) (defaultRole s)
        \<and> index_slice (rolesRegexpByNamespace s) (index_string (namespaceByIP s) ip)
            = pre @ r # post
        \<and> (\<forall>q \<in> set pre. \<not> MatchString rx q role) \<and> MatchString rx r role \<longrightarrow>
        snd (CheckNamespaceRestriction rx s role ip) =
          [MapRead NamespaceByIP, MapRead RolesRegexpByNamespace,
           Debugf (RoleMatching role r (index_string (namespaceByIP s) ip))])
   \<and> (namespaceRestriction s \<and> role \<noteq> RoleARN (iam s) (defaultRole s)
        \<and> (rolesRegexpByNamespace s (index_string (namespaceByIP s) ip) = None
            \<or> rolesRegexpByNamespace s (index_string (namespaceByIP s) ip) = Some []) \<longrightarrow>
        \<not> fst (fst (CheckNamespaceRestriction rx s role ip)))
   \<and> (namespaceRestriction s \<and> role \<noteq> RoleARN (iam s) (defaultRole s)
        \<and> namespaceByIP s ip = None \<longrightarrow>
        (fst (fst (CheckNamespaceRestriction rx s role ip)) \<longleftrightarrow>
           (\<exists>r \<in> set (index_slice (rolesRegexpByNamespace s) []). MatchString rx r role)))"
proof -
  let ?ns = "index_string (namespaceByIP s) ip"
  let ?ar = "index_slice (rolesRegexpByNamespace s) ?ns"
  let ?res = "CheckNamespaceRestriction rx s role ip"
  have tenant: "snd (fst ?res) = (case namespaceByIP s ip of Some namespace \<Rightarrow> namespace | None \<Rightarrow> [])"
    by (simp add: CheckNamespaceRestriction_def Let_def index_string_def split: prod.splits)
  have off: "\<not> namespaceRestriction s \<Longrightarrow> fst (fst ?res)"
    by (simp add: CheckNamespaceRestriction_def Let_def)
  have dflt: "namespaceRestriction s \<Longrightarrow> role = RoleARN (iam s) (defaultRole s) \<Longrightarrow> fst (fst ?res)"
    by (simp add: CheckNamespaceRestriction_def Let_def)
  have scan: "?res = ((checkRoleForNamespace_scan rx ?ar role \<noteq> None, ?ns),
                      MapRead NamespaceByIP # snd (checkRoleForNamespace rx s role ?ns))"
    if "namespaceRestriction s" "role \<noteq> RoleARN (iam s) (defaultRole s)"
    using that
    by (simp add: CheckNamespaceRestriction_def checkRoleForNamespace_def Let_def
             split: prod.splits option.splits)
  have some: "fst (fst ?res) \<longleftrightarrow> (\<exists>r \<in> set ?ar. MatchString rx r role)"
    if "namespaceRestriction s" "role \<noteq> RoleARN (iam s) (defaultRole s)"
    using scan [OF that] by (simp add: checkRoleForNamespace_scan_None)
  have first: "snd ?res = [MapRead NamespaceByIP, MapRead RolesRegexpByNamespace,
                           Debugf (RoleMatching role r ?ns)]"
    if "namespaceRestriction s" "role \<noteq> RoleARN (iam s) (defaultRole s)"
       "?ar = pre @ r # post" "\<forall>q \<in> set pre. \<not> MatchString rx q role" "MatchString rx r role"
  proof -
    have "checkRoleForNamespace_scan rx ?ar role = Some r"
      using that(3) checkRoleForNamespace_scan_first [OF that(4) that(5)] by simp
    then show ?thesis
      using scan [OF that(1) that(2)] by (simp add: checkRoleForNamespace_def Let_def)
  qed
  have none: "\<not> fst (fst ?res)"
    if "namespaceRestriction s" "role \<noteq> RoleARN (iam s) (defaultRole s)"
       "rolesRegexpByNamespace s ?ns = None \<or> rolesRegexpByNamespace s ?ns = Some []"
  proof -
    from that(3) have "?ar = []" by (auto simp: index_slice_def)
    with some [OF that(1) that(2)] show ?thesis by simp
  qed
  have unknown: "fst (fst ?res) \<longleftrightarrow>
                   (\<exists>r \<in> set (index_slice (rolesRegexpByNamespace s) []). MatchString rx r role)"
    if "namespaceRestriction s" "role \<noteq> RoleARN (iam s) (defaultRole s)"
       "namespaceByIP s ip = None"
  proof -
    from that(3) have "?ns = []" by (simp add: index_string_def)
    with some [OF that(1) that(2)] show ?thesis by simp
  qed
  from tenant off dflt some first none unknown show ?thesis by blast
qed

theorem CheckNamespaceRestriction_decision_witness:
  "\<not> namespaceRestriction unrestricted_store
   \<and> fst (fst (CheckNamespaceRestriction example_rx unrestricted_store ''role:other-team'' ''A1''))
   \<and> namespaceRestriction payments_store
   \<and> ''role:default'' = RoleARN (iam payments_store) (defaultRole payments_store)
   \<and> fst (fst (CheckNamespaceRestriction example_rx payments_store ''role:default'' ''A1''))
   \<and> ''role:payments-writer'' \<noteq> RoleARN (iam payments_store) (defaultRole payments_store)
   \<and> index_slice (rolesRegexpByNamespace payments_store) (index_string (namespaceByIP payments_store) ''A1'')
        = [] @ Regexp ''role:payments-.*'' # []
   \<and> MatchString example_rx (Regexp ''role:payments-.*'') ''role:payments-writer''
   \<and> snd (CheckNamespaceRestriction example_rx payments_store ''role:payments-writer'' ''A1'') =
       [MapRead NamespaceByIP, MapRead RolesRegexpByNamespace,
        Debugf (RoleMatching ''role:payments-writer'' (Regexp ''role:payments-.*'')
                  (index_string (namespaceByIP payments_store) ''A1''))]
   \<and> fst (fst (CheckNamespaceRestriction example_rx payments_store ''role:payments-writer'' ''A1''))
   \<and> ''role:other-team'' \<noteq> RoleARN (iam payments_store) (defaultRole payments_store)
   \<and> rolesRegexpByNamespace payments_store (index_string (namespaceByIP payments_store) ''A9'') = None
   \<and> \<not> fst (fst (CheckNamespaceRestriction example_rx payments_store ''role:other-team'' ''A9''))
   \<and> snd (fst (CheckNamespaceRestriction example_rx payments_store ''role:other-team'' ''A9'')) = []
   \<and> namespaceRestriction unnamed_namespace_store
   \<and> ''role:payments-writer''
        \<noteq> RoleARN (iam unnamed_namespace_store) (defaultRole unnamed_namespace_store)
   \<and> namespaceByIP unnamed_namespace_store ''A9'' = None
   \<and> (\<exists>r \<in> set (index_slice (rolesRegexpByNamespace unnamed_namespace_store) []).
          MatchString example_rx r ''role:payments-writer'')
   \<and> fst (fst (CheckNamespaceRestriction example_rx unnamed_namespace_store
                  ''role:payments-writer'' ''A9''))"
proof -
  have a: "\<not> namespaceRestriction unrestricted_store" by code_simp
  have b: "namespaceRestriction payments_store" by code_simp
  have c: "''role:default'' = RoleARN (iam payments_store) (defaultRole payments_store)"
    by code_simp
  have d: "''role:payments-writer'' \<noteq> RoleARN (iam payments_store) (defaultRole payments_store)"
    by code_simp
  have e: "index_slice (rolesRegexpByNamespace payments_store)
             (index_string (namespaceByIP payments_store) ''A1'')
           = [] @ Regexp ''role:payments-.*'' # []"
    by code_simp
  have f: "\<forall>q \<in> set []. \<not> MatchString example_rx q ''role:payments-writer''" by simp
  have g: "MatchString example_rx (Regexp ''role:payments-.*'') ''role:payments-writer''"
    by code_simp
  have h: "''role:other-team'' \<noteq> RoleARN (iam payments_store) (defaultRole payments_store)"
    by code_simp
  have i: "rolesRegexpByNamespace payments_store
             (index_string (namespaceByIP payments_store) ''A9'') = None"
    by code_simp
  have j: "namespaceByIP payments_store ''A9'' = None" by code_simp
  have k: "\<exists>r \<in> set (index_slice (rolesRegexpByNamespace payments_store)
                        (index_string (namespaceByIP payments_store) ''A1'')).
             MatchString example_rx r ''role:payments-writer''"
    using e g by simp
  note t1 = CheckNamespaceRestriction_decision
              [of example_rx unrestricted_store "''role:other-team''" "''A1''"]
  note t2 = CheckNamespaceRestriction_decision
              [of example_rx payments_store "''role:default''" "''A1''"]
  note t3 = CheckNamespaceRestriction_decision
              [of example_rx payments_store "''role:payments-writer''" "''A1''"
                  "[]" "Regexp ''role:payments-.*''" "[]"]
  note t4 = CheckNamespaceRestriction_decision
              [of example_rx payments_store "''role:other-team''" "''A9''"]
  have 1: "fst (fst (CheckNamespaceRestriction example_rx unrestricted_store ''role:other-team'' ''A1''))"
    using t1 [THEN conjunct2, THEN conjunct1] a by simp
  have 2: "fst (fst (CheckNamespaceRestriction example_rx payments_store ''role:default'' ''A1''))"
    using t2 [THEN conjunct2, THEN conjunct2, THEN conjunct1] b c by simp
  have 3: "snd (CheckNamespaceRestriction example_rx payments_store ''role:payments-writer'' ''A1'') =
       [MapRead NamespaceByIP, MapRead RolesRegexpByNamespace,
        Debugf (RoleMatching ''role:payments-writer'' (Regexp ''role:payments-.*'')
                  (index_string (namespaceByIP payments_store) ''A1''))]"
    using t3 [THEN conjunct2, THEN conjunct2, THEN conjunct2, THEN conjunct2, THEN conjunct1]
      b d e f g by simp
  have 4: "fst (fst (CheckNamespaceRestriction example_rx payments_store ''role:payments-writer'' ''A1''))"
    using t3 [THEN conjunct2, THEN conjunct2, THEN conjunct2, THEN conjunct1] b d k by simp
  have 5: "\<not> fst (fst (CheckNamespaceRestriction example_rx payments_store ''role:other-team'' ''A9''))"
    using t4 [THEN conjunct2, THEN conjunct2, THEN conjunct2, THEN conjunct2, THEN conjunct2,
              THEN conjunct1]
      b h i by simp
  have 6: "snd (fst (CheckNamespaceRestriction example_rx payments_store ''role:other-team'' ''A9'')) = []"
    using t4 [THEN conjunct1] j by simp
  have l: "namespaceRestriction unnamed_namespace_store" by code_simp
  have m: "''role:payments-writer''
             \<noteq> RoleARN (iam unnamed_namespace_store) (defaultRole unnamed_namespace_store)"
    by code_simp
  have n: "namespaceByIP unnamed_namespace_store ''A9'' = None" by code_simp
  have o: "\<exists>r \<in> set (index_slice (rolesRegexpByNamespace unnamed_namespace_store) []).
             MatchString example_rx r ''role:payments-writer''"
    by code_simp
  note t5 = CheckNamespaceRestriction_decision
              [of example_rx unnamed_namespace_store "''role:payments-writer''" "''A9''"]
  have 7: "fst (fst (CheckNamespaceRestriction example_rx unnamed_namespace_store
                       ''role:payments-writer'' ''A9''))"
    using t5 [THEN conjunct2, THEN conjunct2, THEN conjunct2, THEN conjunct2, THEN conjunct2,
              THEN conjunct2]
      l m n o by simp
  show ?thesis
    by (intro conjI a b c d e g h i l m n o 1 2 3 4 5 6 7)
qed

subsection \<open>Stores built by calls\<close>

lemma count_list_distinct:
  "distinct xs \<Longrightarrow> x \<in> set xs \<Longrightarrow> count_list xs x = 1"
  by (induction xs) auto

lemma index_slice_upd:
  "index_slice (m(ns \<mapsto> ar)) ns = ar"
  by (simp add: index_slice_def)

lemma index_slice_Some:
  "ar \<noteq> [] \<Longrightarrow> index_slice m ns = ar \<Longrightarrow> m ns = Some ar"
  by (auto simp: index_slice_def split: option.splits)

lemma AddRoleToNamespace_present:
  assumes "RoleARN (iam s) regexpForRole
             \<in> set (map Regexp_String (index_slice (rolesRegexpByNamespace s) namespace))"
  shows "fst (AddRoleToNamespace rx s namespace regexpForRole) = s"
proof -
  let ?ar = "index_slice (rolesRegexpByNamespace s) namespace"
  from assms have "?ar \<noteq> []" by auto
  then have "rolesRegexpByNamespace s namespace = Some ?ar"
    by (rule index_slice_Some) simp
  then have "(rolesRegexpByNamespace s)(namespace \<mapsto> ?ar) = rolesRegexpByNamespace s"
    by (rule map_upd_triv)
  with assms show ?thesis
    by (simp add: AddRoleToNamespace_def Let_def AddRoleToNamespace_scan_iff)
qed

lemma AddRoleToNamespace_fresh:
  assumes "RoleARN (iam s) regexpForRole
             \<notin> set (map Regexp_String (index_slice (rolesRegexpByNamespace s) namespace))"
  shows "fst (AddRoleToNamespace rx s namespace regexpForRole) =
           (if syntax_ok rx (RoleARN (iam s) regexpForRole)
            then s\<lparr>rolesRegexpByNamespace :=
                     (rolesRegexpByNamespace s)
                       (namespace \<mapsto> index_slice (rolesRegexpByNamespace s) namespace
                                      @ [Regexp (RoleARN (iam s) regexpForRole)])\<rparr>
            else s)"
  using assms
  by (simp add: AddRoleToNamespace_def Let_def AddRoleToNamespace_scan_iff Compile_def)

lemma patterns_ok_NewStore:
  "patterns_ok rx (NewStore key dr nr nk ic)"
  by (simp add: patterns_ok_def NewStore_def)

lemma patterns_ok_AddRoleToNamespace:
  assumes "patterns_ok rx s"
  shows "patterns_ok rx (fst (AddRoleToNamespace rx s namespace regexpForRole))"
proof (cases "RoleARN (iam s) regexpForRole
                \<in> set (map Regexp_String (index_slice (rolesRegexpByNamespace s) namespace))")
  case True
  with assms show ?thesis by (simp add: AddRoleToNamespace_present)
next
  case False
  let ?ar = "index_slice (rolesRegexpByNamespace s) namespace"
  have old: "distinct (map Regexp_String ?ar) \<and> (\<forall>r \<in> set ?ar. syntax_ok rx (expr r))"
    using assms by (auto simp: patterns_ok_def index_slice_def split: option.splits)
  show ?thesis
  proof (cases "syntax_ok rx (RoleARN (iam s) regexpForRole)")
    case no: False
    with False assms show ?thesis by (simp add: AddRoleToNamespace_fresh)
  next
    case yes: True
    have "distinct (map Regexp_String (?ar @ [Regexp (RoleARN (iam s) regexpForRole)]))"
      using old False by (simp add: Regexp_String_def)
    moreover have "\<forall>r \<in> set (?ar @ [Regexp (RoleARN (iam s) regexpForRole)]). syntax_ok rx (expr r)"
      using old yes by simp
    ultimately show ?thesis
      using assms False yes
      unfolding patterns_ok_def AddRoleToNamespace_fresh [OF False]
      by (simp split: if_splits)
  qed
qed

lemma patterns_ok_RemoveRoleFromNamespace:
  assumes "patterns_ok rx s"
  shows "patterns_ok rx (fst (RemoveRoleFromNamespace s namespace regexpForRole))"
proof -
  let ?ar = "index_slice (rolesRegexpByNamespace s) namespace"
  let ?ar' = "RemoveRoleFromNamespace_loop ?ar 0 (RoleARN (iam s) regexpForRole)"
  have old: "distinct (map Regexp_String ?ar) \<and> (\<forall>r \<in> set ?ar. syntax_ok rx (expr r))"
    using assms by (auto simp: patterns_ok_def index_slice_def split: option.splits)
  then have "distinct (map Regexp_String ?ar')"
    by (simp add: RemoveRoleFromNamespace_loop_remove1)
  moreover have "\<forall>r \<in> set ?ar'. syntax_ok rx (expr r)"
    using old RemoveRoleFromNamespace_loop_subset [of ?ar 0 "RoleARN (iam s) regexpForRole"]
    by blast
  ultimately show ?thesis
    using assms
    unfolding patterns_ok_def RemoveRoleFromNamespace_def Let_def
    by (simp split: if_splits)
qed

lemma patterns_ok_do_call:
  "patterns_ok rx s \<Longrightarrow> patterns_ok rx (do_call rx s c)"
proof (cases c)
  case (Call_AddRoleToNamespace namespace regexpForRole)
  assume "patterns_ok rx s"
  with Call_AddRoleToNamespace show ?thesis
    by (simp add: patterns_ok_AddRoleToNamespace)
next
  case (Call_RemoveRoleFromNamespace namespace regexpForRole)
  assume "patterns_ok rx s"
  with Call_RemoveRoleFromNamespace show ?thesis
    by (simp add: patterns_ok_RemoveRoleFromNamespace)
qed (auto simp: patterns_ok_def AddRoleToIP_def AddNamespaceToIP_def DeleteIP_def
       DeleteNamespace_def Let_def split: if_splits)

lemma patterns_ok_do_calls:
  "patterns_ok rx s \<Longrightarrow> patterns_ok rx (do_calls rx s cs)"
  by (induction cs arbitrary: s) (simp_all add: patterns_ok_do_call)

lemma iam_do_call: "iam (do_call rx s c) = iam s"
  by (cases c)
     (simp_all add: AddRoleToIP_def AddNamespaceToIP_def DeleteIP_def AddRoleToNamespace_def
        RemoveRoleFromNamespace_def DeleteNamespace_def Let_def split: sum.splits)

lemma iam_do_calls: "iam (do_calls rx s cs) = iam s"
  by (induction cs arbitrary: s) (simp_all add: iam_do_call)

lemma AddRoleToNamespace_twice_ok:
  assumes ok: "patterns_ok rx s"
      and s1: "s1 = fst (AddRoleToNamespace rx s namespace regexpForRole)"
      and s2: "s2 = fst (AddRoleToNamespace rx s1 namespace regexpForRole)"
      and arn: "arn = RoleARN (iam s) regexpForRole"
  shows "s2 = s1" 
    and "count_list (map Regexp_String (index_slice (rolesRegexpByNamespace s2) namespace)) arn
         = (if syntax_ok rx arn then 1 else 0)"
proof -
  let ?ar = "index_slice (rolesRegexpByNamespace s) namespace"
  have old: "distinct (map Regexp_String ?ar) \<and> (\<forall>r \<in> set ?ar. syntax_ok rx (expr r))"
    using ok by (auto simp: patterns_ok_def index_slice_def split: option.splits)
  have both: "s2 = s1 \<and>
        count_list (map Regexp_String (index_slice (rolesRegexpByNamespace s2) namespace)) arn
         = (if syntax_ok rx arn then 1 else 0)"
  proof (cases "arn \<in> set (map Regexp_String ?ar)")
    case True
    then have "s1 = s" using s1 arn by (simp add: AddRoleToNamespace_present)
    moreover from this have "s2 = s" using s2 True arn by (simp add: AddRoleToNamespace_present)
    moreover have "count_list (map Regexp_String ?ar) arn = 1"
      using old True by (simp add: count_list_distinct)
    moreover have "syntax_ok rx arn"
      using old True by (auto simp: Regexp_String_def)
    ultimately show ?thesis by simp
  next
    case False
    show ?thesis
    proof (cases "syntax_ok rx arn")
      case no: False
      have "s1 = s" using s1 arn False no by (simp add: AddRoleToNamespace_fresh)
      moreover from this have "s2 = s" using s2 arn False no by (simp add: AddRoleToNamespace_fresh)
      ultimately show ?thesis using False no by simp
    next
      case yes: True
      have e1: "s1 = s\<lparr>rolesRegexpByNamespace :=
                     (rolesRegexpByNamespace s)(namespace \<mapsto> ?ar @ [Regexp arn])\<rparr>"
        using s1 arn False yes by (simp add: AddRoleToNamespace_fresh)
      then have i1: "iam s1 = iam s"
        and a1: "index_slice (rolesRegexpByNamespace s1) namespace = ?ar @ [Regexp arn]"
        by (simp_all add: index_slice_upd)
      have "RoleARN (iam s1) regexpForRole
              \<in> set (map Regexp_String (index_slice (rolesRegexpByNamespace s1) namespace))"
        using i1 a1 arn by (simp add: Regexp_String_def)
      then have "s2 = s1" using s2 by (simp add: AddRoleToNamespace_present)
      moreover have "count_list (map Regexp_String (?ar @ [Regexp arn])) arn = 1"
        using False by (simp add: Regexp_String_def)
      ultimately show ?thesis using a1 yes by simp
    qed
  qed
  from both [THEN conjunct1] show "s2 = s1" .
  from both [THEN conjunct2]
  show "count_list (map Regexp_String (index_slice (rolesRegexpByNamespace s2) namespace)) arn
         = (if syntax_ok rx arn then 1 else 0)" .
qed

subsection \<open>AddRoleToNamespace twice\<close>

text \<open>
  Claim C5, as stated, at a pattern that does not compile: after two calls of
  \<open>AddRoleToNamespace\<close> with the pattern \<open>(\<close> on a fresh store, the namespace does not
  hold exactly one entry with the ARN of the pattern.
\<close>

theorem AddRoleToNamespace_twice_counterexample:
  "count_list
     (map Regexp_String
        (index_slice
           (rolesRegexpByNamespace
              (fst (AddRoleToNamespace example_rx
                      (fst (AddRoleToNamespace example_rx empty_store ''payments'' ''(''))
                      ''payments'' ''('')))
           ''payments''))
     (RoleARN (iam empty_store) ''('') \<noteq> 1"
  by code_simp

text \<open>
  Claim C5, amended. In every store built from \<open>NewStore\<close> by calls of the mutating
  methods, a second \<open>AddRoleToNamespace\<close> with the same namespace and pattern leaves the
  store exactly as the first call left it. When the ARN of the pattern compiles, the
  namespace's slice then holds exactly one expression with that text; when it does not
  compile, it holds none. A call whose ARN is already among the texts of the namespace's
  slice leaves the store unchanged.
\<close>

theorem AddRoleToNamespace_idempotent:
  assumes "s = do_calls rx (NewStore key defaultRole' namespaceRestriction' namespaceKey ic) cs"
      and "s1 = fst (AddRoleToNamespace rx s namespace regexpForRole)"
      and "s2 = fst (AddRoleToNamespace rx s1 namespace regexpForRole)"
      and "arn = RoleARN (iam s) regexpForRole"
  shows "s2 = s1
         \<and> (syntax_ok rx arn \<longrightarrow>
              count_list (map Regexp_String (index_slice (rolesRegexpByNamespace s2) namespace)) arn = 1)
         \<and> (\<not> syntax_ok rx arn \<longrightarrow>
              count_list (map Regexp_String (index_slice (rolesRegexpByNamespace s2) namespace)) arn = 0)
         \<and> (arn \<in> set (map Regexp_String (index_slice (rolesRegexpByNamespace s) namespace)) \<longrightarrow>
              s1 = s)"
proof -
  have ok: "patterns_ok rx s"
    using assms(1) by (simp add: patterns_ok_do_calls patterns_ok_NewStore)
  note tw = AddRoleToNamespace_twice_ok [OF ok assms(2) assms(3) assms(4)]
  have one: "count_list (map Regexp_String (index_slice (rolesRegexpByNamespace s2) namespace)) arn = 1"
    if "syntax_ok rx arn"
    using tw(2) that by simp
  have none: "count_list (map Regexp_String (index_slice (rolesRegexpByNamespace s2) namespace)) arn = 0"
    if "\<not> syntax_ok rx arn"
    using tw(2) that by simp
  have same: "s1 = s"
    if "arn \<in> set (map Regexp_String (index_slice (rolesRegexpByNamespace s) namespace))"
    using that assms(2) assms(4) AddRoleToNamespace_present [of s regexpForRole namespace rx]
    by simp
  from tw(1) one none same show ?thesis by blast
qed

theorem AddRoleToNamespace_idempotent_witness:
  "syntax_ok example_rx (RoleARN (iam payments_store) ''billing-.*'')
   \<and> fst (AddRoleToNamespace example_rx
           (fst (AddRoleToNamespace example_rx payments_store ''payments'' ''billing-.*''))
           ''payments'' ''billing-.*'')
     = fst (AddRoleToNamespace example_rx payments_store ''payments'' ''billing-.*'')
   \<and> count_list
       (map Regexp_String
          (index_slice
             (rolesRegexpByNamespace
                (fst (AddRoleToNamespace example_rx
                        (fst (AddRoleToNamespace example_rx payments_store ''payments'' ''billing-.*''))
                        ''payments'' ''billing-.*'')))
             ''payments''))
       (RoleARN (iam payments_store) ''billing-.*'') = 1
   \<and> RoleARN (iam payments_store) ''payments-.*''
       \<in> set (map Regexp_String (index_slice (rolesRegexpByNamespace payments_store) ''payments''))
   \<and> fst (AddRoleToNamespace example_rx payments_store ''payments'' ''payments-.*'') = payments_store
   \<and> \<not> syntax_ok example_rx (RoleARN (iam payments_store) ''('')
   \<and> count_list
       (map Regexp_String
          (index_slice
             (rolesRegexpByNamespace
                (fst (AddRoleToNamespace example_rx
                        (fst (AddRoleToNamespace example_rx payments_store ''payments'' ''(''))
                        ''payments'' ''('')))
             ''payments''))
       (RoleARN (iam payments_store) ''('') = 0"
proof -
  have a: "syntax_ok example_rx (RoleARN (iam payments_store) ''billing-.*'')" by code_simp
  have b: "RoleARN (iam payments_store) ''payments-.*''
       \<in> set (map Regexp_String (index_slice (rolesRegexpByNamespace payments_store) ''payments''))"
    by code_simp
  have c: "\<not> syntax_ok example_rx (RoleARN (iam payments_store) ''('')" by code_simp
  note t = AddRoleToNamespace_idempotent [OF payments_store_def refl refl refl]
  note t1 = t [of "''payments''" "''billing-.*''"]
  note t2 = t [of "''payments''" "''payments-.*''"]
  note t3 = t [of "''payments''" "''(''"]
  note 1 = t1 [THEN conjunct1]
  note 2 = t1 [THEN conjunct2, THEN conjunct1, rule_format, OF a]
  note 3 = t2 [THEN conjunct2, THEN conjunct2, THEN conjunct2, rule_format, OF b]
  note 4 = t3 [THEN conjunct2, THEN conjunct2, THEN conjunct1, rule_format, OF c]
  show ?thesis
    by (intro conjI a b c 1 2 3 4)
qed

subsection \<open>RemoveRoleFromNamespace\<close>

text \<open>
  What \<open>RemoveRoleFromNamespace\<close> does to the texts of the namespace's slice is
  \<open>remove1\<close>: the first expression whose text equals the ARN goes, the others stay in
  order. Other namespaces keep their entries, and a namespace that has an entry without
  such an expression leaves the store unchanged. A namespace without an entry gets one,
  with the empty slice: the method writes \<open>ar\<close> back whatever the loop did.
\<close>

lemma RemoveRoleFromNamespace_texts:
  "map Regexp_String
     (index_slice (rolesRegexpByNamespace (fst (RemoveRoleFromNamespace s namespace regexpForRole)))
        namespace) =
   remove1 (RoleARN (iam s) regexpForRole)
     (map Regexp_String (index_slice (rolesRegexpByNamespace s) namespace))"
  by (simp add: RemoveRoleFromNamespace_def Let_def index_slice_def
        RemoveRoleFromNamespace_loop_remove1)

lemma RemoveRoleFromNamespace_other:
  "ns \<noteq> namespace \<Longrightarrow>
   rolesRegexpByNamespace (fst (RemoveRoleFromNamespace s namespace regexpForRole)) ns =
   rolesRegexpByNamespace s ns"
  by (simp add: RemoveRoleFromNamespace_def Let_def)

lemma RemoveRoleFromNamespace_no_match:
  assumes "rolesRegexpByNamespace s namespace = Some ar"
      and "RoleARN (iam s) regexpForRole \<notin> set (map Regexp_String ar)"
  shows "fst (RemoveRoleFromNamespace s namespace regexpForRole) = s"
proof -
  have "index_slice (rolesRegexpByNamespace s) namespace = ar"
    using assms(1) by (simp add: index_slice_def)
  moreover have "RemoveRoleFromNamespace_loop ar 0 (RoleARN (iam s) regexpForRole) = ar"
    using assms(2) by (rule RemoveRoleFromNamespace_loop_no_match)
  moreover have "(rolesRegexpByNamespace s)(namespace \<mapsto> ar) = rolesRegexpByNamespace s"
    using assms(1) by (rule map_upd_triv)
  ultimately show ?thesis
    by (simp add: RemoveRoleFromNamespace_def Let_def)
qed

lemma RemoveRoleFromNamespace_makes_entry:
  "rolesRegexpByNamespace s namespace = None \<Longrightarrow>
   rolesRegexpByNamespace (fst (RemoveRoleFromNamespace s namespace regexpForRole)) namespace
     = Some []"
  by (simp add: RemoveRoleFromNamespace_def Let_def index_slice_def
        RemoveRoleFromNamespace_loop.simps [of "[]"])

text \<open>
  Claim C7, at a namespace that has no entry. On the store with nothing recorded,
  \<open>RemoveRoleFromNamespace\<close> for namespace \<open>payments\<close> leaves a store in which
  \<open>payments\<close> has an entry, the empty slice: the store is not the one it was, and
  \<open>DumpRolesByNamespace\<close> now lists the namespace.
\<close>

theorem RemoveRoleFromNamespace_unknown_namespace:
  "rolesRegexpByNamespace empty_store ''payments'' = None
   \<and> rolesRegexpByNamespace
        (fst (RemoveRoleFromNamespace empty_store ''payments'' ''payments-.*'')) ''payments''
      = Some []
   \<and> fst (RemoveRoleFromNamespace empty_store ''payments'' ''payments-.*'') \<noteq> empty_store
   \<and> fst (DumpRolesByNamespace empty_store) ''payments'' = None
   \<and> fst (DumpRolesByNamespace
             (fst (RemoveRoleFromNamespace empty_store ''payments'' ''payments-.*''))) ''payments''
      = Some []"
proof -
  have a: "rolesRegexpByNamespace empty_store ''payments'' = None" by code_simp
  have b: "rolesRegexpByNamespace
             (fst (RemoveRoleFromNamespace empty_store ''payments'' ''payments-.*'')) ''payments''
           = Some []"
    by code_simp
  have c: "fst (RemoveRoleFromNamespace empty_store ''payments'' ''payments-.*'') \<noteq> empty_store"
  proof
    assume "fst (RemoveRoleFromNamespace empty_store ''payments'' ''payments-.*'') = empty_store"
    with b have "rolesRegexpByNamespace empty_store ''payments'' = Some []" by simp
    with a show False by simp
  qed
  have d: "fst (DumpRolesByNamespace empty_store) ''payments'' = None" by code_simp
  have e: "fst (DumpRolesByNamespace
             (fst (RemoveRoleFromNamespace empty_store ''payments'' ''payments-.*''))) ''payments''
           = Some []"
    by code_simp
  show ?thesis by (intro conjI a b c d e)
qed

subsection \<open>The dumps\<close>

text \<open>
  \<open>DumpRolesByIP\<close> and \<open>DumpNamespaceByIP\<close> return their maps. \<open>DumpRolesByNamespace\<close>
  starts each list with \<open>make([]string, n)\<close>, which already has \<open>n\<close> elements, and
  appends the \<open>n\<close> texts to it.
\<close>

lemma DumpRolesByIP_contents: "fst (DumpRolesByIP s) = rolesByIP s"
  by (simp add: DumpRolesByIP_def)

lemma DumpNamespaceByIP_contents: "fst (DumpNamespaceByIP s) = namespaceByIP s"
  by (simp add: DumpNamespaceByIP_def)

lemma DumpRolesByNamespace_contents:
  "fst (DumpRolesByNamespace s) ns =
     map_option (\<lambda>ar. replicate (length ar) [] @ map Regexp_String ar)
       (rolesRegexpByNamespace s ns)"
  by (simp add: DumpRolesByNamespace_def DumpRolesByNamespace_loop_eq make_strings_def
        index_slice_def split: option.splits)

text \<open>
  Claim C8, at a namespace with one pattern. For the namespace \<open>payments\<close>, whose slice
  holds the one expression \<open>role:payments-.*\<close>, \<open>DumpRolesByNamespace\<close> returns a list of
  two strings: the empty string, then the text of the expression.
\<close>

theorem DumpRolesByNamespace_empty_strings:
  "rolesRegexpByNamespace payments_store ''payments'' = Some [Regexp ''role:payments-.*'']
   \<and> fst (DumpRolesByNamespace payments_store) ''payments'' = Some [[], ''role:payments-.*'']"
  by code_simp

subsection \<open>Locking\<close>

text \<open>
  \<open>Get\<close> reads its map between \<open>RLock\<close> and \<open>RUnlock\<close>. \<open>CheckNamespaceRestriction\<close>
  never calls the mutex, so its first effect, the read of \<open>namespaceByIP\<close>, happens
  with nothing held, for every input.
\<close>

lemma Get_under_lock: "under_lock Nothing (snd (Get s IP))"
  by (simp add: Get_def split: option.splits)

lemma CheckNamespaceRestriction_not_under_lock:
  "\<not> under_lock Nothing (snd (CheckNamespaceRestriction rx s role ip))"
  by (simp add: CheckNamespaceRestriction_def Let_def split: prod.splits)

text \<open>
  \<open>AddRoleToNamespace\<close> and \<open>RemoveRoleFromNamespace\<close> take the write lock for the
  write only: the slice they work on is read before.
\<close>

lemma AddRoleToNamespace_not_under_lock:
  "\<not> under_lock Nothing (snd (AddRoleToNamespace rx s namespace regexpForRole))"
  by (simp add: AddRoleToNamespace_def Let_def split: sum.splits)

lemma RemoveRoleFromNamespace_not_under_lock:
  "\<not> under_lock Nothing (snd (RemoveRoleFromNamespace s namespace regexpForRole))"
  by (simp add: RemoveRoleFromNamespace_def Let_def)

lemma address_calls_under_lock:
  "under_lock Nothing (snd (AddRoleToIP s pod role))"
  "under_lock Nothing (snd (AddNamespaceToIP s pod))"
  "under_lock Nothing (snd (DeleteIP s ip))"
  "under_lock Nothing (snd (DeleteNamespace s namespace))"
  by (simp_all add: AddRoleToIP_def AddNamespaceToIP_def DeleteIP_def DeleteNamespace_def Let_def)

text \<open>
  Claim C9, the part about the lock held by one call. \<open>Get\<close> reads under the read lock.
  \<open>CheckNamespaceRestriction\<close> for a role other than the default reads \<open>namespaceByIP\<close>
  and \<open>rolesRegexpByNamespace\<close> and calls neither \<open>RLock\<close> nor \<open>Lock\<close>; the three dumps
  read their maps without the lock as well.
\<close>

theorem CheckNamespaceRestriction_reads_unlocked:
  "under_lock Nothing (snd (Get payments_store ''A1''))
   \<and> \<not> under_lock Nothing
         (snd (CheckNamespaceRestriction example_rx payments_store ''role:other-team'' ''A1''))
   \<and> snd (CheckNamespaceRestriction example_rx payments_store ''role:other-team'' ''A1'') =
       [MapRead NamespaceByIP, MapRead RolesRegexpByNamespace,
        Warnf (RoleNotFound ''role:other-team'' ''payments'')]
   \<and> \<not> under_lock Nothing (snd (DumpRolesByIP payments_store))
   \<and> \<not> under_lock Nothing (snd (DumpRolesByNamespace payments_store))
   \<and> \<not> under_lock Nothing (snd (DumpNamespaceByIP payments_store))"
  by code_simp

end
